theory Spec2Isabelle
  imports Main
begin

section \<open>Data exchanged with the gateway\<close>

text \<open>
  A sample as the controller reads it. The controller logic of \<^verbatim>\<open>App.js\<close> inspects only
  \<^verbatim>\<open>predicted_action\<close> (a JavaScript number, compared with \<^verbatim>\<open>!==\<close> against 0, 1 and 2);
  the remaining fields of a sample are only rendered, and the sample as a whole is passed
  back to the gateway unchanged.
\<close>

record sample =
  ip :: string
  predicted_action :: nat

record stats =
  accuracy :: nat
  total_reviewed :: nat
  correct_predictions :: nat
  incorrect_predictions :: nat
  pending_count :: nat
  pending_threshold :: nat
  retraining_in_progress :: bool

text \<open>
  The object literal that \<^verbatim>\<open>handleReview\<close> hands to \<^verbatim>\<open>JSON.stringify\<close> for the POST to
  \<^verbatim>\<open>/review\<close>. The parameter \<^verbatim>\<open>correctedAction\<close> of \<^verbatim>\<open>handleReview\<close> defaults to \<^verbatim>\<open>null\<close>,
  which is \<open>None\<close> here; the object has its three properties in every case.
\<close>

record review_body =
  sample :: sample
  is_correct :: bool
  corrected_action :: "nat option"

datatype request = GET_load_samples | GET_stats | POST_review review_body

text \<open>
  What a \<^verbatim>\<open>fetch\<close> followed by \<^verbatim>\<open>.json()\<close> can give: the fetch promise rejects (\<open>None\<close>),
  or it resolves to a response whose \<^verbatim>\<open>json()\<close> promise rejects (\<open>Response None\<close>) or
  resolves to the parsed body.
\<close>

datatype 'a response = Response (json: "'a option")

datatype samples_data = SamplesData (samples_success: bool) (samples_of: "sample list")

datatype stats_data = StatsData (stats_success: bool) (stats_of: stats)

datatype review_result = ReviewResult (review_success: bool) (review_message: string)

section \<open>Component state\<close>

datatype severity = Success | Warning | Error

record notification_msg =
  message :: string
  type :: severity

text \<open>
  Every state setter and every request is recorded in \<open>trace\<close>, in program order, so
  that what a handler did (and in which order) can be stated.
\<close>

datatype effect =
    Fetch request
  | SetSamples "sample list"
  | SliceSamples
  | SetStats stats
  | SetLoading bool
  | SetProcessing bool
  | SetCorrectionMode bool
  | SetNotification "notification_msg option"
  | SetTimeout nat

text \<open>
  The six \<^verbatim>\<open>useState\<close> cells of \<^verbatim>\<open>App\<close>, the pending \<^verbatim>\<open>setTimeout\<close> callbacks (the only
  callback the source ever arms is \<^verbatim>\<open>() => setNotification(null)\<close>, so a timer is its
  deadline), a virtual clock, and the trace.
\<close>

record state =
  samples :: "sample list"
  stats :: "stats option"
  loading :: bool
  processing :: bool
  correctionMode :: bool
  notification :: "notification_msg option"
  timers :: "nat list"
  now :: nat
  trace :: "effect list"

definition initial_state :: state where
  "initial_state =
     \<lparr>samples = [], stats = None, loading = True, processing = False,
      correctionMode = False, notification = None, timers = [], now = 0, trace = []\<rparr>"

definition emit :: "effect \<Rightarrow> state \<Rightarrow> state" where
  "emit e st = st\<lparr>trace := trace st @ [e]\<rparr>"

definition fetch :: "request \<Rightarrow> state \<Rightarrow> state" where
  "fetch r st = emit (Fetch r) st"

definition setSamples :: "sample list \<Rightarrow> state \<Rightarrow> state" where
  "setSamples v st = emit (SetSamples v) (st\<lparr>samples := v\<rparr>)"

text \<open>\<^verbatim>\<open>setSamples(prev => prev.slice(1))\<close>\<close>

definition sliceSamples :: "state \<Rightarrow> state" where
  "sliceSamples st = emit SliceSamples (st\<lparr>samples := drop 1 (samples st)\<rparr>)"

definition setStats :: "stats \<Rightarrow> state \<Rightarrow> state" where
  "setStats v st = emit (SetStats v) (st\<lparr>stats := Some v\<rparr>)"

definition setLoading :: "bool \<Rightarrow> state \<Rightarrow> state" where
  "setLoading v st = emit (SetLoading v) (st\<lparr>loading := v\<rparr>)"

definition setProcessing :: "bool \<Rightarrow> state \<Rightarrow> state" where
  "setProcessing v st = emit (SetProcessing v) (st\<lparr>processing := v\<rparr>)"

definition setCorrectionMode :: "bool \<Rightarrow> state \<Rightarrow> state" where
  "setCorrectionMode v st = emit (SetCorrectionMode v) (st\<lparr>correctionMode := v\<rparr>)"

definition setNotification :: "notification_msg option \<Rightarrow> state \<Rightarrow> state" where
  "setNotification v st = emit (SetNotification v) (st\<lparr>notification := v\<rparr>)"

section \<open>Notifications and their timers\<close>

text \<open>
  \<^verbatim>\<open>setTimeout(() => setNotification(null), delay)\<close>: a new pending timer. The handle
  returned by \<^verbatim>\<open>setTimeout\<close> is dropped by the source, and \<^verbatim>\<open>clearTimeout\<close> is called
  nowhere.
\<close>

definition setTimeout :: "nat \<Rightarrow> state \<Rightarrow> state" where
  "setTimeout delay st = emit (SetTimeout delay) (st\<lparr>timers := timers st @ [now st + delay]\<rparr>)"

definition showNotification :: "string \<Rightarrow> severity \<Rightarrow> state \<Rightarrow> state" where
  "showNotification msg ty st =
     setTimeout 3000 (setNotification (Some \<lparr>message = msg, type = ty\<rparr>) st)"

text \<open>Running the callbacks of the timers that are due, one after the other.\<close>

fun fire_all :: "nat list \<Rightarrow> state \<Rightarrow> state" where
  "fire_all [] st = st"
| "fire_all (d # ds) st = fire_all ds (setNotification None st)"

text \<open>The clock moves to time \<open>t\<close>: every timer whose deadline is reached fires and is gone.\<close>

definition advance :: "nat \<Rightarrow> state \<Rightarrow> state" where
  "advance t st =
     fire_all (filter (\<lambda>d. d \<le> t) (timers st))
       (st\<lparr>timers := filter (\<lambda>d. \<not> d \<le> t) (timers st), now := max t (now st)\<rparr>)"

section \<open>fetchData\<close>

text \<open>
  The two requests are issued together; \<^verbatim>\<open>Promise.all\<close> rejects as soon as one of the two
  fetches rejects, and both bodies are parsed before either is applied.
\<close>

definition fetchData_begin :: "state \<Rightarrow> state" where
  "fetchData_begin st = fetch GET_stats (fetch GET_load_samples st)"

definition promise_all :: "'a option \<Rightarrow> 'b option \<Rightarrow> ('a \<times> 'b) option" where
  "promise_all a b =
     (case a of None \<Rightarrow> None
      | Some x \<Rightarrow> (case b of None \<Rightarrow> None | Some y \<Rightarrow> Some (x, y)))"

definition fetchData_resume ::
  "samples_data response option \<Rightarrow> stats_data response option \<Rightarrow> state \<Rightarrow> state" where
  "fetchData_resume samplesFetch statsFetch st =
     setLoading False
       (case promise_all samplesFetch statsFetch of
          None \<Rightarrow> showNotification ''Error connecting to Firewall API'' Error st
        | Some (samplesRes, statsRes) \<Rightarrow>
            (case json samplesRes of
               None \<Rightarrow> showNotification ''Error connecting to Firewall API'' Error st
             | Some samplesData \<Rightarrow>
                 (case json statsRes of
                    None \<Rightarrow> showNotification ''Error connecting to Firewall API'' Error st
                  | Some statsData \<Rightarrow>
                      (let st1 = (if samples_success samplesData
                                  then setSamples (samples_of samplesData) st else st)
                       in if stats_success statsData
                          then setStats (stats_of statsData) st1 else st1))))"

definition fetchData ::
  "samples_data response option \<Rightarrow> stats_data response option \<Rightarrow> state \<Rightarrow> state" where
  "fetchData samplesFetch statsFetch st =
     fetchData_resume samplesFetch statsFetch (fetchData_begin st)"

section \<open>handleReview\<close>

text \<open>
  \<^verbatim>\<open>handleReview\<close> is an async function with two suspension points. It is modelled as
  its three synchronous pieces, each returning the state and whether the function is
  now suspended on a request:
  \<^item> \<open>handleReview_begin\<close>: from the call to the POST of the review;
  \<^item> \<open>handleReview_review\<close>: from the arrival of the review response to the GET of the
    stats (or to the end);
  \<^item> \<open>handleReview_stats\<close>: from the arrival of the stats response to the end.
  The \<^verbatim>\<open>catch\<close> and \<^verbatim>\<open>finally\<close> blocks are \<open>review_catch\<close> and \<open>review_finally\<close>.
\<close>

definition review_catch :: "state \<Rightarrow> state" where
  "review_catch st = showNotification ''Failed to submit review'' Error st"

definition review_finally :: "state \<Rightarrow> state" where
  "review_finally st = setProcessing False st"

definition handleReview_begin :: "bool \<Rightarrow> nat option \<Rightarrow> state \<Rightarrow> state \<times> bool" where
  "handleReview_begin isCorrect correctedAction st =
     (case samples st of
        [] \<Rightarrow> (st, False)
      | currentSample # _ \<Rightarrow>
          (fetch (POST_review \<lparr>sample = currentSample, is_correct = isCorrect,
                               corrected_action = correctedAction\<rparr>)
             (setProcessing True st), True))"

definition handleReview_review ::
  "bool \<Rightarrow> review_result response option \<Rightarrow> state \<Rightarrow> state \<times> bool" where
  "handleReview_review isCorrect reviewFetch st =
     (case reviewFetch of
        None \<Rightarrow> (review_finally (review_catch st), False)
      | Some response \<Rightarrow>
          (case json response of
             None \<Rightarrow> (review_finally (review_catch st), False)
           | Some result \<Rightarrow>
               if review_success result
               then (fetch GET_stats
                       (sliceSamples
                          (showNotification (review_message result)
                             (if isCorrect then Success else Warning) st)), True)
               else (review_finally st, False)))"

definition handleReview_stats :: "stats_data response option \<Rightarrow> state \<Rightarrow> state" where
  "handleReview_stats statsFetch st =
     (case statsFetch of
        None \<Rightarrow> review_finally (review_catch st)
      | Some statsRes \<Rightarrow>
          (case json statsRes of
             None \<Rightarrow> review_finally (review_catch st)
           | Some statsData \<Rightarrow>
               review_finally
                 (setCorrectionMode False
                    (if stats_success statsData
                     then setStats (stats_of statsData) st else st))))"

text \<open>One whole call, with the responses the gateway gives to its requests.\<close>

definition handleReview ::
  "bool \<Rightarrow> nat option \<Rightarrow> review_result response option \<Rightarrow> stats_data response option \<Rightarrow>
   state \<Rightarrow> state" where
  "handleReview isCorrect correctedAction reviewFetch statsFetch st =
     (case handleReview_begin isCorrect correctedAction st of
        (st1, False) \<Rightarrow> st1
      | (st1, True) \<Rightarrow>
          (case handleReview_review isCorrect reviewFetch st1 of
             (st2, False) \<Rightarrow> st2
           | (st2, True) \<Rightarrow> handleReview_stats statsFetch st2))"

section \<open>The action area\<close>

datatype button = BtnConfirm | BtnReject | BtnOption nat | BtnCancel

text \<open>
  The table \<^verbatim>\<open>ACTIONS\<close>, by the label of each entry: it has the keys 0, 1 and 2 and no
  other.
\<close>

definition ACTIONS :: "nat \<Rightarrow> string option" where
  "ACTIONS = [0 \<mapsto> ''ALLOW'', 1 \<mapsto> ''RATE LIMIT'', 2 \<mapsto> ''BLOCK'']"

text \<open>
  The buttons rendered in the action area, each with its \<^verbatim>\<open>disabled\<close> attribute. Nothing
  is rendered while \<open>loading\<close>, and the empty state has no button. With a head sample,
  the prediction card and the "Confirm" button read
  \<^verbatim>\<open>ACTIONS[currentSample.predicted_action]\<close>: for a predicted action that is not a key of
  the table this is \<^verbatim>\<open>undefined\<close>, reading its \<^verbatim>\<open>color\<close> throws during rendering, and no
  button is rendered.
\<close>

definition correction_options :: "sample \<Rightarrow> nat list" where
  "correction_options currentSample =
     filter (\<lambda>a. a \<noteq> predicted_action currentSample) [0, 1, 2]"

definition action_area :: "state \<Rightarrow> (button \<times> bool) list" where
  "action_area st =
     (if loading st then []
      else case samples st of
        [] \<Rightarrow> []
      | currentSample # _ \<Rightarrow>
          (case ACTIONS (predicted_action currentSample) of
             None \<Rightarrow> []
           | Some label \<Rightarrow>
               if \<not> correctionMode st
               then [(BtnConfirm, processing st), (BtnReject, processing st)]
               else map (\<lambda>action. (BtnOption action, False))
                      (correction_options currentSample)
                    @ [(BtnCancel, False)]))"

definition onClick :: "button \<Rightarrow> state \<Rightarrow> state" where
  "onClick b st =
     (case b of
        BtnConfirm \<Rightarrow> fst (handleReview_begin True None st)
      | BtnReject \<Rightarrow> setCorrectionMode True st
      | BtnOption action \<Rightarrow> fst (handleReview_begin False (Some action) st)
      | BtnCancel \<Rightarrow> setCorrectionMode False st)"

text \<open>A click reaches the handler only if the button is rendered and not disabled.\<close>

definition click :: "button \<Rightarrow> state \<Rightarrow> state" where
  "click b st = (if (b, False) \<in> set (action_area st) then onClick b st else st)"

section \<open>Reading a trace\<close>

fun requests :: "effect list \<Rightarrow> request list" where
  "requests [] = []"
| "requests (Fetch r # es) = r # requests es"
| "requests (e # es) = requests es"

fun raised :: "effect list \<Rightarrow> notification_msg list" where
  "raised [] = []"
| "raised (SetNotification (Some n) # es) = n # raised es"
| "raised (e # es) = raised es"

text \<open>
  The text that \<^verbatim>\<open>JSON.stringify\<close> makes of the object literal handed to it, read as the
  members of the JSON object in their order. \<^verbatim>\<open>JSON.stringify\<close> leaves out a property only
  when its value is \<^verbatim>\<open>undefined\<close>; a property whose value is \<^verbatim>\<open>null\<close> is written, as
  \<^verbatim>\<open>"corrected_action":null\<close>. The parameter \<^verbatim>\<open>correctedAction\<close> is never \<^verbatim>\<open>undefined\<close>: its
  default \<^verbatim>\<open>null\<close> takes the place of a missing argument.
\<close>

datatype json_value =
    JNull
  | JBool bool
  | JNumber nat
  | JString string
  | JObject "(string \<times> json_value) list"

definition sample_json :: "sample \<Rightarrow> json_value" where
  "sample_json s =
     JObject [(''ip'', JString (ip s)), (''predicted_action'', JNumber (predicted_action s))]"

definition JSON_stringify :: "review_body \<Rightarrow> (string \<times> json_value) list" where
  "JSON_stringify b =
     [(''sample'', sample_json (sample b)),
      (''is_correct'', JBool (is_correct b)),
      (''corrected_action'',
         (case corrected_action b of None \<Rightarrow> JNull | Some a \<Rightarrow> JNumber a))]"

text \<open>The bodies of the review requests in a trace, as sent.\<close>

fun payloads :: "effect list \<Rightarrow> (string \<times> json_value) list list" where
  "payloads [] = []"
| "payloads (Fetch (POST_review b) # es) = JSON_stringify b # payloads es"
| "payloads (e # es) = payloads es"

text \<open>What a handler appended to the trace: the effects between two states.\<close>

definition new_effects :: "state \<Rightarrow> state \<Rightarrow> effect list" where
  "new_effects st st' = drop (length (trace st)) (trace st')"

text \<open>The body a request delivers, if the fetch and the parse both succeed.\<close>

definition parsed :: "'a response option \<Rightarrow> 'a option" where
  "parsed f = (case f of None \<Rightarrow> None | Some r \<Rightarrow> json r)"

section \<open>Example data\<close>

definition sample1 :: sample where
  "sample1 = \<lparr>ip = ''1.2.3.4'', predicted_action = 2\<rparr>"

definition sample2 :: sample where
  "sample2 = \<lparr>ip = ''10.0.0.7'', predicted_action = 0\<rparr>"

definition stats1 :: stats where
  "stats1 = \<lparr>accuracy = 80, total_reviewed = 10, correct_predictions = 8,
              incorrect_predictions = 2, pending_count = 2, pending_threshold = 50,
              retraining_in_progress = False\<rparr>"

definition ok :: "'a \<Rightarrow> 'a response option" where
  "ok body = Some (Response (Some body))"

text \<open>The state after a first \<^verbatim>\<open>fetchData\<close> that delivered two samples and the stats.\<close>

definition loaded_state :: state where
  "loaded_state =
     fetchData (ok (SamplesData True [sample1, sample2])) (ok (StatsData True stats1))
       initial_state"

text \<open>The state after the operator pressed "Incorrect Prediction" on the first sample.\<close>

definition correcting_state :: state where
  "correcting_state = click BtnReject loaded_state"

text \<open>
  The state after the operator then chose "Set to ALLOW": the review of the first sample
  is in flight, and no response has arrived yet.
\<close>

definition busy_state :: state where
  "busy_state = click (BtnOption 0) correcting_state"

definition connect_error :: notification_msg where
  "connect_error = \<lparr>message = ''Error connecting to Firewall API'', type = Error\<rparr>"

definition submit_error :: notification_msg where
  "submit_error = \<lparr>message = ''Failed to submit review'', type = Error\<rparr>"

lemmas setter_defs =
  emit_def fetch_def setSamples_def sliceSamples_def setStats_def setLoading_def
  setProcessing_def setCorrectionMode_def setNotification_def setTimeout_def
  showNotification_def review_catch_def review_finally_def

lemmas handler_defs =
  handleReview_def handleReview_begin_def handleReview_review_def handleReview_stats_def
  fetchData_def fetchData_begin_def fetchData_resume_def promise_all_def
  new_effects_def parsed_def

lemmas example_defs =
  initial_state_def loaded_state_def correcting_state_def busy_state_def ok_def
  sample1_def sample2_def stats1_def click_def onClick_def action_area_def
  correction_options_def ACTIONS_def

section \<open>Facts about the timers\<close>

lemma fire_all_notification:
  "notification (fire_all ds st) = (if ds = [] then notification st else None)"
proof (induction ds arbitrary: st)
  case Nil
  show ?case by simp
next
  case (Cons d ds)
  show ?case by (simp add: Cons.IH setNotification_def emit_def)
qed

lemma fire_all_timers_now:
  "timers (fire_all ds st) = timers st \<and> now (fire_all ds st) = now st"
  by (induction ds arbitrary: st) (simp_all add: setNotification_def emit_def)

text \<open>Any timer that is due empties the slot, whichever message the slot holds.\<close>

lemma advance_notification:
  "notification (advance t st)
     = (if \<exists>d \<in> set (timers st). d \<le> t then None else notification st)"
  by (auto simp: advance_def fire_all_notification filter_empty_conv)

lemma advance_timers_now:
  "timers (advance t st) = filter (\<lambda>d. \<not> d \<le> t) (timers st)"
  "now (advance t st) = max t (now st)"
  by (simp_all add: advance_def fire_all_timers_now)

lemma showNotification_fields:
  "notification (showNotification msg ty st) = Some \<lparr>message = msg, type = ty\<rparr>"
  "timers (showNotification msg ty st) = timers st @ [now st + 3000]"
  "now (showNotification msg ty st) = now st"
  by (simp_all add: setter_defs)

section \<open>fetchData when one request fails\<close>

text \<open>
  C1, as stated, fails. On the first run the stats request is rejected and the samples
  request delivers one sample: the queue is not populated, because the rejection of
  \<^verbatim>\<open>Promise.all\<close> skips both setters.
\<close>

theorem fetchData_partial_failure_counterexample:
  "samples (fetchData (ok (SamplesData True [sample1])) None initial_state) = []
   \<and> samples (fetchData (ok (SamplesData True [sample1])) None initial_state) \<noteq> [sample1]"
  by (simp add: handler_defs example_defs setter_defs)

text \<open>
  C1, amended. When exactly one of the two requests of \<^verbatim>\<open>fetchData\<close> fails (the fetch is
  rejected or the body does not parse) and the other succeeds, neither result is
  applied: the queue and the stats both keep their prior values. Exactly one
  notification is raised, the error "Error connecting to Firewall API", and \<open>loading\<close>
  is cleared.
\<close>

theorem fetchData_one_failure:
  assumes "(parsed samplesFetch = None) \<noteq> (parsed statsFetch = None)"
  shows "samples (fetchData samplesFetch statsFetch st) = samples st
       \<and> stats (fetchData samplesFetch statsFetch st) = stats st
       \<and> raised (new_effects st (fetchData samplesFetch statsFetch st)) = [connect_error]
       \<and> notification (fetchData samplesFetch statsFetch st) = Some connect_error
       \<and> loading (fetchData samplesFetch statsFetch st) = False"
  using assms
  by (auto simp: handler_defs setter_defs connect_error_def split: option.splits)

theorem fetchData_one_failure_witness:
  "samples (fetchData (ok (SamplesData True [sample1])) None loaded_state) = [sample1, sample2]
   \<and> stats (fetchData (ok (SamplesData True [sample1])) None loaded_state) = Some stats1
   \<and> raised (new_effects loaded_state
        (fetchData (ok (SamplesData True [sample1])) None loaded_state)) = [connect_error]"
proof -
  have h: "(parsed (ok (SamplesData True [sample1])) = None)
             \<noteq> (parsed (None :: stats_data response option) = None)"
    by (simp add: parsed_def ok_def)
  have l: "samples loaded_state = [sample1, sample2] \<and> stats loaded_state = Some stats1"
    by (simp add: handler_defs example_defs setter_defs)
  show ?thesis
    using fetchData_one_failure [OF h, of loaded_state] l by simp
qed

section \<open>Two notifications in a row\<close>

text \<open>
  C2, as stated, fails. Notification A is shown at time 0 and B at time 1000; at time
  3001 the slot does not show B: the timer armed for A has fired at 3000 and has
  cleared it.
\<close>

theorem notification_rearm_counterexample:
  "notification (advance 3001 (showNotification ''B'' Success
      (advance 1000 (showNotification ''A'' Success initial_state))))
   \<noteq> Some \<lparr>message = ''B'', type = Success\<rparr>"
  by (simp add: advance_def initial_state_def setter_defs)

text \<open>
  C2, amended. A new notification replaces the visible one and arms its own timer of
  3000 units, and the timer of the previous notification stays armed. With no timer
  pending before, A shown at some time and B shown \<open>d < 3000\<close> units later, B is visible
  from then until A's timer is due, and the slot is empty at every time from A's deadline
  on: for A at 0 and B at 1000, B is visible up to time 2999 and the slot is empty at
  3001 and at 4001.
\<close>

theorem earlier_timer_clears_newer_notification:
  assumes "timers st = []" and "d < 3000"
  shows "(now st + d \<le> t \<and> t < now st + 3000 \<longrightarrow>
            notification (advance t (showNotification msgB tyB
              (advance (now st + d) (showNotification msgA tyA st))))
            = Some \<lparr>message = msgB, type = tyB\<rparr>)
       \<and> (now st + 3000 \<le> t \<longrightarrow>
            notification (advance t (showNotification msgB tyB
              (advance (now st + d) (showNotification msgA tyA st))))
            = None)"
proof -
  let ?stA = "advance (now st + d) (showNotification msgA tyA st)"
  let ?stB = "showNotification msgB tyB ?stA"
  have pending: "timers ?stB = [now st + 3000, now st + d + 3000]"
    using assms by (simp add: showNotification_fields advance_timers_now)
  have visible: "notification ?stB = Some \<lparr>message = msgB, type = tyB\<rparr>"
    by (simp add: showNotification_fields)
  have early: "notification (advance t ?stB) = Some \<lparr>message = msgB, type = tyB\<rparr>"
    if "t < now st + 3000"
    using that pending visible by (simp add: advance_notification)
  have late: "notification (advance t ?stB) = None" if "now st + 3000 \<le> t"
    using that pending by (simp add: advance_notification)
  from early late show ?thesis by blast
qed

theorem earlier_timer_clears_newer_notification_witness:
  "notification (advance 2999 (showNotification ''B'' Success
      (advance 1000 (showNotification ''A'' Success initial_state))))
     = Some \<lparr>message = ''B'', type = Success\<rparr>
   \<and> notification (advance 3001 (showNotification ''B'' Success
      (advance 1000 (showNotification ''A'' Success initial_state)))) = None
   \<and> notification (advance 4001 (showNotification ''B'' Success
      (advance 1000 (showNotification ''A'' Success initial_state)))) = None"
proof -
  have h1: "timers initial_state = []" and n: "now initial_state = 0"
    by (simp_all add: initial_state_def)
  have h2: "(1000::nat) < 3000" by simp
  show ?thesis
    using earlier_timer_clears_newer_notification [OF h1 h2, of 2999 "''B''" Success "''A''" Success]
      earlier_timer_clears_newer_notification [OF h1 h2, of 3001 "''B''" Success "''A''" Success]
      earlier_timer_clears_newer_notification [OF h1 h2, of 4001 "''B''" Success "''A''" Success]
    by (simp add: n)
qed

section \<open>A second submission while a review is in flight\<close>

text \<open>
  The latch is enforced by the \<^verbatim>\<open>disabled\<close> attribute of two buttons only: while
  \<open>processing\<close>, a click on "Confirm" or on "Incorrect Prediction" does nothing.
\<close>

lemma direct_buttons_disabled_while_processing:
  "processing st \<Longrightarrow> click BtnConfirm st = st \<and> click BtnReject st = st"
  by (auto simp: click_def action_area_def correction_options_def
        split: list.splits option.splits)

text \<open>
  C3. \<^verbatim>\<open>handleReview\<close> itself never reads \<open>processing\<close>, and the buttons of the
  correction panel are not disabled by it. In \<open>busy_state\<close> the review of the first
  sample is in flight; a second click on the same correction option is not ignored: it
  changes the state and sends a second review of the same head sample.
\<close>

theorem second_submission_while_processing:
  "processing busy_state
   \<and> requests (trace busy_state)
       = [GET_load_samples, GET_stats,
          POST_review \<lparr>sample = sample1, is_correct = False, corrected_action = Some 0\<rparr>]
   \<and> requests (trace (click (BtnOption 0) busy_state))
       = [GET_load_samples, GET_stats,
          POST_review \<lparr>sample = sample1, is_correct = False, corrected_action = Some 0\<rparr>,
          POST_review \<lparr>sample = sample1, is_correct = False, corrected_action = Some 0\<rparr>]
   \<and> fst (handleReview_begin False (Some 0) busy_state) \<noteq> busy_state"
  by (simp add: handler_defs example_defs setter_defs)

section \<open>What a review does to the queue\<close>

text \<open>
  C4. A call of \<^verbatim>\<open>handleReview\<close> changes the queue, or calls the slicing setter, only
  if the review response parsed and its \<^verbatim>\<open>success\<close> field is true. The same holds piece
  by piece: the part before the request and the part after the stats response never
  touch the queue, and the part run on the review response does so only on success.
\<close>

theorem dequeue_only_when_acknowledged:
  "(samples (handleReview isCorrect correctedAction reviewFetch statsFetch st) \<noteq> samples st
      \<or> SliceSamples \<in> set (new_effects st
            (handleReview isCorrect correctedAction reviewFetch statsFetch st))
    \<longrightarrow> map_option review_success (parsed reviewFetch) = Some True)
   \<and> samples (fst (handleReview_begin isCorrect correctedAction st)) = samples st
   \<and> (samples (fst (handleReview_review isCorrect reviewFetch st)) \<noteq> samples st
    \<longrightarrow> map_option review_success (parsed reviewFetch) = Some True)
   \<and> samples (handleReview_stats statsFetch st) = samples st"
  by (cases reviewFetch; cases "samples st")
     (auto simp: handler_defs setter_defs split: option.splits if_splits)

theorem dequeue_only_when_acknowledged_witness:
  "samples (handleReview True None (ok (ReviewResult True ''Updated''))
      (ok (StatsData True stats1)) loaded_state) \<noteq> samples loaded_state
   \<and> samples (fst (handleReview_review True (ok (ReviewResult True ''Updated'')) loaded_state))
       \<noteq> samples loaded_state
   \<and> map_option review_success (parsed (ok (ReviewResult True ''Updated''))) = Some True"
proof -
  have h: "samples (handleReview True None (ok (ReviewResult True ''Updated''))
      (ok (StatsData True stats1)) loaded_state) \<noteq> samples loaded_state"
    and k: "samples (fst (handleReview_review True (ok (ReviewResult True ''Updated''))
      loaded_state)) \<noteq> samples loaded_state"
    by (simp_all add: handler_defs example_defs setter_defs)
  show ?thesis
    using h k dequeue_only_when_acknowledged [of True None "ok (ReviewResult True ''Updated'')"
        "ok (StatsData True stats1)" loaded_state]
    by blast
qed

section \<open>A review that fails\<close>

text \<open>
  C5, as stated, fails. The gateway answers the confirmation of the first sample with a
  well-formed response whose \<^verbatim>\<open>success\<close> is false: no notification is raised, and the slot
  stays empty.
\<close>

theorem rejected_review_counterexample:
  "raised (new_effects loaded_state
      (handleReview True None (ok (ReviewResult False ''rejected'')) None loaded_state)) = []
   \<and> notification (handleReview True None (ok (ReviewResult False ''rejected'')) None loaded_state)
       = None"
  by (simp add: handler_defs example_defs setter_defs)

text \<open>
  C5, amended. For a call of \<^verbatim>\<open>handleReview\<close> on a non-empty queue: if the review request
  fails in transport or in parsing, exactly one notification is raised, the error
  "Failed to submit review"; if the response is well formed with \<^verbatim>\<open>success\<close> false, no
  notification is raised and the slot keeps what it showed. In both cases the queue and
  the correction mode are unchanged.
\<close>

theorem failed_review_leaves_queue:
  assumes "samples st \<noteq> []"
  shows "(parsed reviewFetch = None \<longrightarrow>
            raised (new_effects st (handleReview isCorrect correctedAction reviewFetch statsFetch st))
              = [submit_error]
          \<and> notification (handleReview isCorrect correctedAction reviewFetch statsFetch st)
              = Some submit_error
          \<and> samples (handleReview isCorrect correctedAction reviewFetch statsFetch st) = samples st
          \<and> correctionMode (handleReview isCorrect correctedAction reviewFetch statsFetch st)
              = correctionMode st)
       \<and> (map_option review_success (parsed reviewFetch) = Some False \<longrightarrow>
            raised (new_effects st (handleReview isCorrect correctedAction reviewFetch statsFetch st))
              = []
          \<and> notification (handleReview isCorrect correctedAction reviewFetch statsFetch st)
              = notification st
          \<and> samples (handleReview isCorrect correctedAction reviewFetch statsFetch st) = samples st
          \<and> correctionMode (handleReview isCorrect correctedAction reviewFetch statsFetch st)
              = correctionMode st)"
  using assms
  by (cases reviewFetch; cases "samples st")
     (auto simp: handler_defs setter_defs submit_error_def split: option.splits if_splits)

theorem failed_review_leaves_queue_witness:
  "samples loaded_state \<noteq> []
   \<and> raised (new_effects loaded_state (handleReview True None None None loaded_state))
       = [submit_error]
   \<and> samples (handleReview True None None None loaded_state) = samples loaded_state
   \<and> raised (new_effects loaded_state
        (handleReview True None (ok (ReviewResult False ''rejected'')) None loaded_state)) = []
   \<and> samples (handleReview True None (ok (ReviewResult False ''rejected'')) None loaded_state)
       = samples loaded_state"
proof -
  have h: "samples loaded_state \<noteq> []"
    by (simp add: handler_defs example_defs setter_defs)
  have t: "parsed (None :: review_result response option) = None"
    by (simp add: parsed_def)
  have r: "map_option review_success (parsed (ok (ReviewResult False ''rejected''))) = Some False"
    by (simp add: parsed_def ok_def)
  show ?thesis
    using h t r
      failed_review_leaves_queue [OF h, of None True None None]
      failed_review_leaves_queue [OF h, of "ok (ReviewResult False ''rejected'')" True None None]
    by simp
qed

section \<open>A review that is acknowledged\<close>

text \<open>
  C6, as stated, fails. The correction of the first sample is acknowledged with
  \<^verbatim>\<open>success\<close> true, and the stats request that follows is rejected: the handler jumps to
  its \<^verbatim>\<open>catch\<close> block, and the correction mode is not exited.
\<close>

theorem stats_failure_keeps_correction_mode_counterexample:
  "correctionMode (handleReview False (Some 0) (ok (ReviewResult True ''Updated'')) None
      correcting_state)
   \<and> SetCorrectionMode False \<notin> set (new_effects correcting_state
        (handleReview False (Some 0) (ok (ReviewResult True ''Updated'')) None correcting_state))"
  by (simp add: handler_defs example_defs setter_defs)

text \<open>
  C6, amended. For every call of \<^verbatim>\<open>handleReview\<close> acknowledged with \<^verbatim>\<open>success\<close> true,
  whatever becomes of the stats request, the effects begin, in this order and all after
  the review request, with: the notification with the server's message (severity
  success if \<open>isCorrect\<close>, else warning) and its timer, the removal of exactly the head
  sample, and one stats request; the call sends no other request. What follows depends
  on the stats request. If it delivers a parsed body: the new stats if that body reports
  success, then the exit from correction mode, then the release of \<open>processing\<close>. If
  it fails in transport or in parsing: the error notification with its timer and the
  release of \<open>processing\<close>, with the correction mode left as it was. Before the review
  response, the call has only set \<open>processing\<close> and sent the review.
\<close>

theorem acknowledged_review_effects_in_order:
  assumes "samples st = currentSample # rest"
    and "parsed reviewFetch = Some result" and "review_success result"
  shows "new_effects st (handleReview isCorrect correctedAction reviewFetch statsFetch st)
           = [SetProcessing True,
              Fetch (POST_review \<lparr>sample = currentSample, is_correct = isCorrect,
                                   corrected_action = correctedAction\<rparr>),
              SetNotification (Some \<lparr>message = review_message result,
                                      type = (if isCorrect then Success else Warning)\<rparr>),
              SetTimeout 3000,
              SliceSamples,
              Fetch GET_stats]
             @ (case parsed statsFetch of
                  Some statsData \<Rightarrow>
                    (if stats_success statsData then [SetStats (stats_of statsData)] else [])
                    @ [SetCorrectionMode False, SetProcessing False]
                | None \<Rightarrow>
                    [SetNotification (Some submit_error), SetTimeout 3000,
                     SetProcessing False])
       \<and> requests (new_effects st
            (handleReview isCorrect correctedAction reviewFetch statsFetch st))
           = [POST_review \<lparr>sample = currentSample, is_correct = isCorrect,
                             corrected_action = correctedAction\<rparr>,
              GET_stats]
       \<and> samples (handleReview isCorrect correctedAction reviewFetch statsFetch st) = rest
       \<and> correctionMode (handleReview isCorrect correctedAction reviewFetch statsFetch st)
           = (case parsed statsFetch of Some statsData \<Rightarrow> False | None \<Rightarrow> correctionMode st)
       \<and> new_effects st (fst (handleReview_begin isCorrect correctedAction st))
           = [SetProcessing True,
              Fetch (POST_review \<lparr>sample = currentSample, is_correct = isCorrect,
                                   corrected_action = correctedAction\<rparr>)]"
proof -
  obtain response where fetched: "reviewFetch = Some response" "json response = Some result"
    using assms(2) by (auto simp: parsed_def split: option.splits)
  show ?thesis
  proof (cases "parsed statsFetch")
    case None
    then show ?thesis
      using assms(1,3) fetched
      by (cases statsFetch)
         (auto simp: handler_defs setter_defs submit_error_def split: option.splits)
  next
    case (Some statsData)
    then obtain statsRes where "statsFetch = Some statsRes" "json statsRes = Some statsData"
      by (auto simp: parsed_def split: option.splits)
    then show ?thesis
      using assms(1,3) fetched Some
      by (auto simp: handler_defs setter_defs)
  qed
qed

theorem acknowledged_review_effects_in_order_witness:
  "new_effects loaded_state (handleReview True None (ok (ReviewResult True ''Updated''))
       (ok (StatsData True (stats1\<lparr>total_reviewed := 11\<rparr>))) loaded_state)
     = [SetProcessing True,
        Fetch (POST_review \<lparr>sample = sample1, is_correct = True, corrected_action = None\<rparr>),
        SetNotification (Some \<lparr>message = ''Updated'', type = Success\<rparr>),
        SetTimeout 3000, SliceSamples, Fetch GET_stats,
        SetStats (stats1\<lparr>total_reviewed := 11\<rparr>),
        SetCorrectionMode False, SetProcessing False]
   \<and> samples (handleReview True None (ok (ReviewResult True ''Updated''))
       (ok (StatsData True (stats1\<lparr>total_reviewed := 11\<rparr>))) loaded_state) = [sample2]
   \<and> new_effects correcting_state (handleReview False (Some 0)
       (ok (ReviewResult True ''Updated'')) None correcting_state)
     = [SetProcessing True,
        Fetch (POST_review \<lparr>sample = sample1, is_correct = False, corrected_action = Some 0\<rparr>),
        SetNotification (Some \<lparr>message = ''Updated'', type = Warning\<rparr>),
        SetTimeout 3000, SliceSamples, Fetch GET_stats,
        SetNotification (Some submit_error), SetTimeout 3000, SetProcessing False]
   \<and> requests (new_effects correcting_state (handleReview False (Some 0)
       (ok (ReviewResult True ''Updated'')) None correcting_state))
     = [POST_review \<lparr>sample = sample1, is_correct = False, corrected_action = Some 0\<rparr>,
        GET_stats]
   \<and> samples (handleReview False (Some 0) (ok (ReviewResult True ''Updated'')) None
       correcting_state) = [sample2]"
proof -
  have h1: "samples loaded_state = sample1 # [sample2]"
    and k1: "samples correcting_state = sample1 # [sample2]"
    by (simp_all add: handler_defs example_defs setter_defs)
  have h2: "parsed (ok (ReviewResult True ''Updated'')) = Some (ReviewResult True ''Updated'')"
    by (simp add: parsed_def ok_def)
  have h3: "review_success (ReviewResult True ''Updated'')" by simp
  have h4: "parsed (ok (StatsData True (stats1\<lparr>total_reviewed := 11\<rparr>)))
              = Some (StatsData True (stats1\<lparr>total_reviewed := 11\<rparr>))"
    by (simp add: parsed_def ok_def)
  have k4: "parsed (None :: stats_data response option) = None"
    by (simp add: parsed_def)
  show ?thesis
    using acknowledged_review_effects_in_order [OF h1 h2 h3, of True None
        "ok (StatsData True (stats1\<lparr>total_reviewed := 11\<rparr>))"]
      acknowledged_review_effects_in_order [OF k1 h2 h3, of False "Some 0" None]
    by (simp add: h4 k4)
qed

section \<open>The correction panel\<close>

text \<open>
  C7. With the correction panel rendered for a head sample whose \<open>predicted_action\<close> is
  0, 1 or 2, the panel holds one enabled button for each of the two other actions, then
  "Cancel"; the predicted action is not among them; and a click on an offered action
  sends the review of the head sample with \<open>is_correct\<close> false and that action as
  \<open>corrected_action\<close>.
\<close>

theorem correction_panel_offers_other_actions:
  assumes "\<not> loading st" and "samples st = currentSample # rest" and "correctionMode st"
    and "predicted_action currentSample \<in> {0, 1, 2}"
  shows "action_area st
           = map (\<lambda>action. (BtnOption action, False)) (correction_options currentSample)
             @ [(BtnCancel, False)]
       \<and> length (correction_options currentSample) = 2
       \<and> set (correction_options currentSample) = {0, 1, 2} - {predicted_action currentSample}
       \<and> predicted_action currentSample \<notin> set (correction_options currentSample)
       \<and> (\<forall>chosen \<in> set (correction_options currentSample).
            new_effects st (click (BtnOption chosen) st)
              = [SetProcessing True,
                 Fetch (POST_review \<lparr>sample = currentSample, is_correct = False,
                                      corrected_action = Some chosen\<rparr>)])"
  using assms
  by (auto simp: action_area_def ACTIONS_def correction_options_def click_def onClick_def
        handler_defs setter_defs)

theorem correction_panel_offers_other_actions_witness:
  "action_area correcting_state = [(BtnOption 0, False), (BtnOption 1, False), (BtnCancel, False)]
   \<and> correction_options sample1 = [0, 1]
   \<and> new_effects correcting_state (click (BtnOption 1) correcting_state)
       = [SetProcessing True,
          Fetch (POST_review \<lparr>sample = sample1, is_correct = False, corrected_action = Some 1\<rparr>)]"
proof -
  have h1: "\<not> loading correcting_state"
    and h2: "samples correcting_state = sample1 # [sample2]"
    and h3: "correctionMode correcting_state"
    by (simp_all add: handler_defs example_defs setter_defs)
  have h4: "predicted_action sample1 \<in> {0, 1, 2}" by (simp add: sample1_def)
  have c: "correction_options sample1 = [0, 1]"
    by (simp add: correction_options_def sample1_def)
  show ?thesis
    using correction_panel_offers_other_actions [OF h1 h2 h3 h4] c by simp
qed

section \<open>Review against an empty queue\<close>

text \<open>
  C8. A call of \<^verbatim>\<open>handleReview\<close> while the queue is empty returns at once: the state,
  including the trace of requests, setter calls and notifications, is exactly what it
  was, whatever the gateway would have answered.
\<close>

theorem handleReview_empty_queue_noop:
  assumes "samples st = []"
  shows "handleReview isCorrect correctedAction reviewFetch statsFetch st = st
         \<and> handleReview_begin isCorrect correctedAction st = (st, False)"
  using assms by (simp add: handleReview_def handleReview_begin_def)

theorem handleReview_empty_queue_noop_witness:
  "samples initial_state = []
   \<and> handleReview True None (ok (ReviewResult True ''Updated'')) None initial_state
       = initial_state
   \<and> handleReview_begin True None initial_state = (initial_state, False)"
proof -
  have h: "samples initial_state = []" by (simp add: initial_state_def)
  show ?thesis
    using h handleReview_empty_queue_noop [OF h, of True None "ok (ReviewResult True ''Updated'')" None]
    by simp
qed

section \<open>Confirming the prediction\<close>

text \<open>
  C9, as stated, fails. The operator confirms the first sample of the loaded queue: the
  body of the review that is sent has a member \<^verbatim>\<open>corrected_action\<close>, whose value is
  \<^verbatim>\<open>null\<close>; the field is not absent from the payload.
\<close>

theorem confirm_payload_counterexample:
  "payloads (new_effects loaded_state (click BtnConfirm loaded_state))
     = [[(''sample'', sample_json sample1), (''is_correct'', JBool True),
         (''corrected_action'', JNull)]]
   \<and> map_of (JSON_stringify \<lparr>sample = sample1, is_correct = True, corrected_action = None\<rparr>)
        ''corrected_action'' = Some JNull
   \<and> map_of (JSON_stringify \<lparr>sample = sample1, is_correct = True, corrected_action = None\<rparr>)
        ''corrected_action'' \<noteq> None"
  by (simp add: handler_defs example_defs setter_defs JSON_stringify_def)

text \<open>
  C9, amended. When the "Confirm" button is rendered and enabled (a head sample whose
  \<open>predicted_action\<close> is 0, 1 or 2, not in correction mode, no review in flight), a
  click on it sets \<open>processing\<close> and sends one review of the head sample, with
  \<open>is_correct\<close> true and with the member \<open>corrected_action\<close> present in the payload and
  equal to \<^verbatim>\<open>null\<close>, the default of the parameter: no action value is sent.
\<close>

theorem confirm_submits_null_corrected_action:
  assumes "\<not> loading st" and "samples st = currentSample # rest" and "\<not> correctionMode st"
    and "\<not> processing st" and "predicted_action currentSample \<in> {0, 1, 2}"
  shows "new_effects st (click BtnConfirm st)
           = [SetProcessing True,
              Fetch (POST_review \<lparr>sample = currentSample, is_correct = True,
                                   corrected_action = None\<rparr>)]
       \<and> payloads (new_effects st (click BtnConfirm st))
           = [[(''sample'', sample_json currentSample), (''is_correct'', JBool True),
               (''corrected_action'', JNull)]]"
proof -
  have rendered: "action_area st = [(BtnConfirm, False), (BtnReject, False)]"
    using assms by (auto simp: action_area_def ACTIONS_def)
  have sent: "new_effects st (click BtnConfirm st)
                = [SetProcessing True,
                   Fetch (POST_review \<lparr>sample = currentSample, is_correct = True,
                                        corrected_action = None\<rparr>)]"
    using assms(2) rendered
    by (simp add: click_def onClick_def handler_defs setter_defs)
  show ?thesis
    by (simp add: sent JSON_stringify_def)
qed

theorem confirm_submits_null_corrected_action_witness:
  "new_effects loaded_state (click BtnConfirm loaded_state)
     = [SetProcessing True,
        Fetch (POST_review \<lparr>sample = sample1, is_correct = True, corrected_action = None\<rparr>)]
   \<and> payloads (new_effects loaded_state (click BtnConfirm loaded_state))
     = [[(''sample'', sample_json sample1), (''is_correct'', JBool True),
         (''corrected_action'', JNull)]]"
proof -
  have h: "\<not> loading loaded_state" "samples loaded_state = sample1 # [sample2]"
    "\<not> correctionMode loaded_state" "\<not> processing loaded_state"
    "predicted_action sample1 \<in> {0, 1, 2}"
    by (simp_all add: handler_defs example_defs setter_defs)
  show ?thesis
    by (rule confirm_submits_null_corrected_action [OF h])
qed

section \<open>An acknowledged review whose stats request fails\<close>

text \<open>
  C10. If the review is acknowledged with \<^verbatim>\<open>success\<close> true and the stats request that
  follows fails in transport or in parsing, then the head sample stays removed, the
  notifications raised are the server's message and then the error "Failed to submit
  review", which is the one left in the slot, the correction mode is what it was, and
  \<open>processing\<close> is released.
\<close>

theorem stats_failure_after_acknowledged_review:
  assumes "samples st = currentSample # rest"
    and "parsed reviewFetch = Some result" and "review_success result"
    and "parsed statsFetch = None"
  shows "samples (handleReview isCorrect correctedAction reviewFetch statsFetch st) = rest
       \<and> raised (new_effects st (handleReview isCorrect correctedAction reviewFetch statsFetch st))
           = [\<lparr>message = review_message result,
                type = (if isCorrect then Success else Warning)\<rparr>, submit_error]
       \<and> notification (handleReview isCorrect correctedAction reviewFetch statsFetch st)
           = Some submit_error
       \<and> correctionMode (handleReview isCorrect correctedAction reviewFetch statsFetch st)
           = correctionMode st
       \<and> processing (handleReview isCorrect correctedAction reviewFetch statsFetch st) = False"
  using assms
  by (cases reviewFetch; cases statsFetch)
     (auto simp: handler_defs setter_defs submit_error_def split: option.splits if_splits)

theorem stats_failure_after_acknowledged_review_witness:
  "samples (handleReview False (Some 1) (ok (ReviewResult True ''Updated'')) None correcting_state)
     = [sample2]
   \<and> notification (handleReview False (Some 1) (ok (ReviewResult True ''Updated'')) None
        correcting_state) = Some submit_error
   \<and> correctionMode (handleReview False (Some 1) (ok (ReviewResult True ''Updated'')) None
        correcting_state)
   \<and> \<not> processing (handleReview False (Some 1) (ok (ReviewResult True ''Updated'')) None
        correcting_state)"
proof -
  have h1: "samples correcting_state = sample1 # [sample2]"
    and c: "correctionMode correcting_state"
    by (simp_all add: handler_defs example_defs setter_defs)
  have h2: "parsed (ok (ReviewResult True ''Updated'')) = Some (ReviewResult True ''Updated'')"
    by (simp add: parsed_def ok_def)
  have h3: "review_success (ReviewResult True ''Updated'')" by simp
  have h4: "parsed (None :: stats_data response option) = None" by (simp add: parsed_def)
  show ?thesis
    using stats_failure_after_acknowledged_review [OF h1 h2 h3 h4, of False "Some 1"] c by simp
qed

end
